theory Spec2Isabelle
  imports Complex_Main
begin

section \<open>Python floats with their special values\<close>

text \<open>
  The controller computes on Python floats. A finite float is modelled by the real number
  it denotes and finite arithmetic is exact: rounding, overflow and underflow are outside
  the model. The special values are kept, with the rules Python applies to them: a float
  division by zero raises \<open>ZeroDivisionError\<close> whatever the numerator is, \<open>math.log\<close>
  raises \<open>ValueError\<close> on a non-positive argument, every comparison with NaN is false.

  What the model is used for is what rounding cannot change: which inputs raise, how
  the special values propagate, and the order of two values that a strict comparison
  separates. The numeric value of a result is a matter of IEEE 754 doubles and of the C
  library's logarithm, and no statement below rests on it beyond results that the doubles
  give exactly.
\<close>

datatype pyfloat = Fin real | PInf | NInf | NaN

datatype pyerror = ValueError | ZeroDivisionError

fun fneg :: "pyfloat \<Rightarrow> pyfloat" where
  "fneg (Fin x) = Fin (- x)"
| "fneg PInf = NInf"
| "fneg NInf = PInf"
| "fneg NaN = NaN"

fun fadd :: "pyfloat \<Rightarrow> pyfloat \<Rightarrow> pyfloat" where
  "fadd NaN _ = NaN"
| "fadd _ NaN = NaN"
| "fadd (Fin x) (Fin y) = Fin (x + y)"
| "fadd PInf NInf = NaN"
| "fadd NInf PInf = NaN"
| "fadd PInf _ = PInf"
| "fadd _ PInf = PInf"
| "fadd NInf _ = NInf"
| "fadd _ NInf = NInf"

definition fsub :: "pyfloat \<Rightarrow> pyfloat \<Rightarrow> pyfloat" where
  "fsub x y = fadd x (fneg y)"

definition signed_inf :: "bool \<Rightarrow> pyfloat" where
  "signed_inf positive = (if positive then PInf else NInf)"

fun fmul :: "pyfloat \<Rightarrow> pyfloat \<Rightarrow> pyfloat" where
  "fmul NaN _ = NaN"
| "fmul _ NaN = NaN"
| "fmul (Fin x) (Fin y) = Fin (x * y)"
| "fmul (Fin x) PInf = (if x = 0 then NaN else signed_inf (0 < x))"
| "fmul (Fin x) NInf = (if x = 0 then NaN else signed_inf (x < 0))"
| "fmul PInf (Fin y) = (if y = 0 then NaN else signed_inf (0 < y))"
| "fmul NInf (Fin y) = (if y = 0 then NaN else signed_inf (y < 0))"
| "fmul PInf PInf = PInf"
| "fmul NInf NInf = PInf"
| "fmul PInf NInf = NInf"
| "fmul NInf PInf = NInf"

fun fdiv :: "pyfloat \<Rightarrow> pyfloat \<Rightarrow> pyerror + pyfloat" where
  "fdiv x (Fin y) =
     (if y = 0 then Inl ZeroDivisionError
      else Inr (case x of
                  Fin u \<Rightarrow> Fin (u / y)
                | PInf \<Rightarrow> signed_inf (0 < y)
                | NInf \<Rightarrow> signed_inf (y < 0)
                | NaN \<Rightarrow> NaN))"
| "fdiv NaN _ = Inr NaN"
| "fdiv _ NaN = Inr NaN"
| "fdiv (Fin x) _ = Inr (Fin 0)"
| "fdiv _ _ = Inr NaN"

fun math_log :: "pyfloat \<Rightarrow> pyerror + pyfloat" where
  "math_log (Fin x) = (if x \<le> 0 then Inl ValueError else Inr (Fin (ln x)))"
| "math_log PInf = Inr PInf"
| "math_log NInf = Inl ValueError"
| "math_log NaN = Inr NaN"

fun flt :: "pyfloat \<Rightarrow> pyfloat \<Rightarrow> bool" where
  "flt NaN _ = False"
| "flt _ NaN = False"
| "flt (Fin x) (Fin y) = (x < y)"
| "flt NInf NInf = False"
| "flt NInf _ = True"
| "flt _ NInf = False"
| "flt PInf _ = False"
| "flt _ PInf = True"

fun fle :: "pyfloat \<Rightarrow> pyfloat \<Rightarrow> bool" where
  "fle NaN _ = False"
| "fle _ NaN = False"
| "fle (Fin x) (Fin y) = (x \<le> y)"
| "fle NInf _ = True"
| "fle _ PInf = True"
| "fle _ _ = False"

definition fgt :: "pyfloat \<Rightarrow> pyfloat \<Rightarrow> bool" where
  "fgt x y = flt y x"

section \<open>metrics.py: the dew point\<close>

text \<open>
  \<^verbatim>\<open>a = 17.27; b = 237.7\<close>
  \<^verbatim>\<open>gamma = (a * temp_c / (b + temp_c)) + math.log(humidity / 100.0)\<close>
  \<^verbatim>\<open>return (b * gamma) / (a - gamma)\<close>
  Python evaluates the quotient before the logarithm, so a zero denominator is reported
  before a bad humidity. In exact arithmetic \<open>gamma\<close> stays below \<open>a\<close> for every
  temperature above \<open>-237.7\<close>; on doubles the quotient rounds to \<open>a\<close> for temperatures
  of about \<open>1e19\<close> and more, so bounds on the value of the result, and the absence of a
  division by zero for every such temperature, are not statements of this model.
\<close>

definition magnus_a :: real where
  "magnus_a = 1727 / 100"

definition magnus_b :: real where
  "magnus_b = 2377 / 10"

definition gamma :: "pyfloat \<Rightarrow> pyfloat \<Rightarrow> pyerror + pyfloat" where
  "gamma temp_c humidity =
     (case fdiv (fmul (Fin magnus_a) temp_c) (fadd (Fin magnus_b) temp_c) of
        Inl e \<Rightarrow> Inl e
      | Inr q \<Rightarrow>
          (case fdiv humidity (Fin 100) of
             Inl e \<Rightarrow> Inl e
           | Inr r \<Rightarrow>
               (case math_log r of
                  Inl e \<Rightarrow> Inl e
                | Inr l \<Rightarrow> Inr (fadd q l))))"

definition dew_point_c :: "pyfloat \<Rightarrow> pyfloat \<Rightarrow> pyerror + pyfloat" where
  "dew_point_c temp_c humidity =
     (case gamma temp_c humidity of
        Inl e \<Rightarrow> Inl e
      | Inr g \<Rightarrow> fdiv (fmul (Fin magnus_b) g) (fsub (Fin magnus_a) g))"

section \<open>config.py: the tunable values\<close>

text \<open>
  Timestamps (\<open>datetime\<close>, naive local time) and durations (\<open>timedelta\<close>) are integers
  counting microseconds, the resolution of both Python types. Every value of config.py
  is read from the environment with a default, so the controller takes them as a record.
\<close>

type_synonym datetime = int

type_synonym timedelta = int

definition minutes :: "int \<Rightarrow> timedelta" where
  "minutes n = n * 60000000"

record config =
  HYSTERESIS_C :: real
  AMBIENT_TEMP_OFFSET_C :: real
  FORCE_RUN_TEMP_DIFF_C :: real
  FORCE_RUN_DURATION :: timedelta
  FORCE_RUN_COOLDOWN :: timedelta

definition default_config :: config where
  "default_config =
     \<lparr>HYSTERESIS_C = 5, AMBIENT_TEMP_OFFSET_C = 5, FORCE_RUN_TEMP_DIFF_C = 6,
      FORCE_RUN_DURATION = minutes 30, FORCE_RUN_COOLDOWN = minutes 60\<rparr>"

section \<open>state.py: the shared controller state\<close>

datatype ctl_mode = Auto | Manual

text \<open>
  The entries of the weather dictionary that the control loop reads. \<open>sunrise\<close> and
  \<open>sunset\<close> are ISO strings or \<open>None\<close>: \<open>Absent\<close> is a falsy entry (missing, \<open>None\<close>
  or the empty string), \<open>Malformed\<close> a string on which \<open>datetime.fromisoformat\<close> raises,
  \<open>Iso t\<close> a string that parses to the naive timestamp \<open>t\<close>.
\<close>

datatype iso_field = Absent | Malformed | Iso datetime

record weather_dict =
  w_temperature_c :: "pyfloat option"
  w_dew_point_c :: "pyfloat option"
  w_sunrise :: iso_field
  w_sunset :: iso_field

record controller_state =
  mode :: ctl_mode
  manual_on :: bool
  relay_on :: bool
  weather :: "weather_dict option"
  auto_run_until :: "datetime option"
  auto_cooldown_until :: "datetime option"

definition initial_state :: controller_state where
  "initial_state =
     \<lparr>mode = Auto, manual_on = False, relay_on = False, weather = None,
      auto_run_until = None, auto_cooldown_until = None\<rparr>"

definition set_mode :: "ctl_mode \<Rightarrow> bool option \<Rightarrow> controller_state \<Rightarrow> controller_state" where
  "set_mode m manual st =
     (case manual of
        None \<Rightarrow> st\<lparr>mode := m\<rparr>
      | Some b \<Rightarrow> st\<lparr>mode := m, manual_on := b\<rparr>)"

definition update_relay :: "bool \<Rightarrow> controller_state \<Rightarrow> controller_state" where
  "update_relay b st = st\<lparr>relay_on := b\<rparr>"

definition update_weather :: "weather_dict option \<Rightarrow> controller_state \<Rightarrow> controller_state" where
  "update_weather w st = st\<lparr>weather := w\<rparr>"

definition start_forced_run :: "datetime \<Rightarrow> datetime \<Rightarrow> controller_state \<Rightarrow> controller_state" where
  "start_forced_run run_until cooldown_until st =
     st\<lparr>auto_run_until := Some run_until, auto_cooldown_until := Some cooldown_until\<rparr>"

definition clear_forced_run :: "controller_state \<Rightarrow> controller_state" where
  "clear_forced_run st = st\<lparr>auto_run_until := None\<rparr>"

definition clear_cooldown :: "controller_state \<Rightarrow> controller_state" where
  "clear_cooldown st = st\<lparr>auto_cooldown_until := None\<rparr>"

definition get_timers :: "controller_state \<Rightarrow> datetime option \<times> datetime option" where
  "get_timers st = (auto_run_until st, auto_cooldown_until st)"

section \<open>Dew_Heater_Controller.py: one pass of the sensor loop\<close>

subsection \<open>The quantities derived from the reading and the weather\<close>

text \<open>
  Lines 375 to 387: both strings are parsed inside one \<open>try\<close>; an exception on either
  resets both results to \<open>None\<close>.
\<close>

fun iso_value :: "iso_field \<Rightarrow> datetime option" where
  "iso_value (Iso t) = Some t"
| "iso_value _ = None"

fun parse_sun :: "iso_field \<Rightarrow> iso_field \<Rightarrow> datetime option \<times> datetime option" where
  "parse_sun Malformed _ = (None, None)"
| "parse_sun _ Malformed = (None, None)"
| "parse_sun sunrise_raw sunset_raw = (iso_value sunrise_raw, iso_value sunset_raw)"

definition sun_times :: "weather_dict option \<Rightarrow> datetime option \<times> datetime option" where
  "sun_times w =
     (case w of
        None \<Rightarrow> (None, None)
      | Some d \<Rightarrow> parse_sun (w_sunrise d) (w_sunset d))"

definition ambient_dew_c :: "weather_dict option \<Rightarrow> pyfloat option" where
  "ambient_dew_c w = (case w of None \<Rightarrow> None | Some d \<Rightarrow> w_dew_point_c d)"

definition ambient_temp_c :: "weather_dict option \<Rightarrow> pyfloat option" where
  "ambient_temp_c w = (case w of None \<Rightarrow> None | Some d \<Rightarrow> w_temperature_c d)"

definition threshold_temp :: "config \<Rightarrow> real \<Rightarrow> pyfloat" where
  "threshold_temp cfg temp_c = fsub (Fin temp_c) (Fin (AMBIENT_TEMP_OFFSET_C cfg))"

definition baseline_dew :: "weather_dict option \<Rightarrow> pyfloat \<Rightarrow> pyfloat" where
  "baseline_dew w dew_c = (case ambient_dew_c w of Some d \<Rightarrow> d | None \<Rightarrow> dew_c)"

definition should_turn_on :: "config \<Rightarrow> real \<Rightarrow> pyfloat \<Rightarrow> weather_dict option \<Rightarrow> bool" where
  "should_turn_on cfg temp_c dew_c w = flt (threshold_temp cfg temp_c) (baseline_dew w dew_c)"

definition should_turn_off :: "config \<Rightarrow> real \<Rightarrow> pyfloat \<Rightarrow> weather_dict option \<Rightarrow> bool" where
  "should_turn_off cfg temp_c dew_c w =
     fgt (threshold_temp cfg temp_c) (fadd (baseline_dew w dew_c) (Fin (HYSTERESIS_C cfg)))"

definition auto_ready :: "datetime \<Rightarrow> datetime \<Rightarrow> bool" where
  "auto_ready startup_time now_dt = (minutes 15 \<le> now_dt - startup_time)"

text \<open>Lines 397 to 403: a timer whose deadline has been reached is cleared.\<close>

definition expire :: "datetime \<Rightarrow> datetime option \<Rightarrow> datetime option" where
  "expire now_dt t =
     (case t of
        None \<Rightarrow> None
      | Some u \<Rightarrow> if u \<le> now_dt then None else Some u)"

definition timer_active :: "datetime \<Rightarrow> datetime option \<Rightarrow> bool" where
  "timer_active now_dt t = (case t of None \<Rightarrow> False | Some u \<Rightarrow> now_dt < u)"

definition daylight_block :: "datetime \<Rightarrow> weather_dict option \<Rightarrow> bool" where
  "daylight_block now_dt w =
     (case sun_times w of
        (Some sunrise_dt, Some sunset_dt) \<Rightarrow>
          sunrise_dt \<le> now_dt \<and> now_dt \<le> sunset_dt
          \<and> sunrise_dt + minutes 30 \<le> now_dt \<and> now_dt \<le> sunset_dt - minutes 30
      | _ \<Rightarrow> False)"

definition can_force_run ::
    "config \<Rightarrow> datetime \<Rightarrow> datetime \<Rightarrow> weather_dict option \<Rightarrow> controller_state \<Rightarrow> bool" where
  "can_force_run cfg startup_time now_dt w st =
     (auto_ready startup_time now_dt
      \<and> \<not> daylight_block now_dt w
      \<and> \<not> timer_active now_dt (expire now_dt (auto_run_until st))
      \<and> \<not> timer_active now_dt (expire now_dt (auto_cooldown_until st))
      \<and> (case (ambient_temp_c w, ambient_dew_c w) of
           (Some amb_t, Some amb_d) \<Rightarrow> fle (fsub amb_t amb_d) (Fin (FORCE_RUN_TEMP_DIFF_C cfg))
         | _ \<Rightarrow> False))"

text \<open>The flag \<open>in_forced_run\<close> as the relay branches see it (lines 413 and 428).\<close>

definition in_forced_run ::
    "config \<Rightarrow> datetime \<Rightarrow> datetime \<Rightarrow> weather_dict option \<Rightarrow> controller_state \<Rightarrow> bool" where
  "in_forced_run cfg startup_time now_dt w st =
     (can_force_run cfg startup_time now_dt w st
      \<or> timer_active now_dt (expire now_dt (auto_run_until st)))"

subsection \<open>Timers and relay\<close>

text \<open>
  Lines 397 to 434, on the shared state: expiry of both timers, then the start of a forced
  run. Nothing here looks at the mode.
\<close>

definition update_timers ::
    "config \<Rightarrow> datetime \<Rightarrow> datetime \<Rightarrow> weather_dict option \<Rightarrow> controller_state \<Rightarrow> controller_state" where
  "update_timers cfg startup_time now_dt w st =
     (let st1 = (case auto_run_until st of
                   None \<Rightarrow> st
                 | Some u \<Rightarrow> if u \<le> now_dt then clear_forced_run st else st);
          st2 = (case auto_cooldown_until st of
                   None \<Rightarrow> st1
                 | Some u \<Rightarrow> if u \<le> now_dt then clear_cooldown st1 else st1)
      in if can_force_run cfg startup_time now_dt w st
         then start_forced_run (now_dt + FORCE_RUN_DURATION cfg)
                (now_dt + FORCE_RUN_DURATION cfg + FORCE_RUN_COOLDOWN cfg) st2
         else st2)"

text \<open>
  Lines 436 to 521, with the flags computed before. \<open>Some b\<close> is a branch that calls
  \<open>set_relay(b)\<close>, assigns the local \<open>relay_on\<close> and logs the event; \<open>None\<close> is a branch
  that only writes a log line.
\<close>

definition relay_branch ::
    "ctl_mode \<Rightarrow> bool \<Rightarrow> bool \<Rightarrow> bool \<Rightarrow> bool \<Rightarrow> bool \<Rightarrow> bool \<Rightarrow> bool \<Rightarrow> bool \<Rightarrow> bool option" where
  "relay_branch md manual_target relay forced turn_on turn_off daylight ready cooldown =
     (if md = Manual then
        (if manual_target \<noteq> relay then Some manual_target else None)
      else if forced then
        (if \<not> relay then Some True else None)
      else if turn_on \<and> \<not> relay then
        (if daylight then None
         else if \<not> ready then None
         else if cooldown then None
         else Some True)
      else if turn_off \<and> relay then Some False
      else None)"

text \<open>\<open>set_relay\<close> (lines 118 to 121): one GPIO write, then the state follows.\<close>

definition set_relay :: "bool \<Rightarrow> controller_state \<times> bool list \<Rightarrow> controller_state \<times> bool list" where
  "set_relay state_on sg = (update_relay state_on (fst sg), snd sg @ [state_on])"

record cycle_result =
  new_state :: controller_state
  gpio_writes :: "bool list"
  logged_events :: "bool list"
  reported_relay :: bool
  forced_run_started :: bool
  forced_run_active :: bool

definition control_cycle ::
    "config \<Rightarrow> datetime \<Rightarrow> datetime \<Rightarrow> real \<Rightarrow> pyfloat \<Rightarrow> weather_dict option
      \<Rightarrow> controller_state \<Rightarrow> cycle_result" where
  "control_cycle cfg startup_time now_dt temp_c dew_c w st =
     (let st1 = update_timers cfg startup_time now_dt w (update_weather w st);
          br = relay_branch (mode st) (manual_on st) (relay_on st)
                 (in_forced_run cfg startup_time now_dt w st)
                 (should_turn_on cfg temp_c dew_c w)
                 (should_turn_off cfg temp_c dew_c w)
                 (daylight_block now_dt w)
                 (auto_ready startup_time now_dt)
                 (timer_active now_dt (expire now_dt (auto_cooldown_until st)));
          sg = (case br of None \<Rightarrow> (st1, []) | Some b \<Rightarrow> set_relay b (st1, []))
      in \<lparr>new_state = fst sg,
          gpio_writes = snd sg,
          logged_events = (case br of None \<Rightarrow> [] | Some b \<Rightarrow> [b]),
          reported_relay = (case br of None \<Rightarrow> relay_on st | Some b \<Rightarrow> b),
          forced_run_started = can_force_run cfg startup_time now_dt w st,
          forced_run_active = in_forced_run cfg startup_time now_dt w st\<rparr>)"

subsection \<open>The humidity filter and the whole poll\<close>

text \<open>
  Lines 340 to 363. The result is whether the reading goes on to the control cycle, and
  the new \<open>last_humidity\<close> and \<open>humidity_spike_pending\<close>.
\<close>

definition humidity_filter :: "real option \<Rightarrow> bool \<Rightarrow> real \<Rightarrow> bool \<times> real option \<times> bool" where
  "humidity_filter last_humidity pending humidity =
     (case last_humidity of
        None \<Rightarrow> (True, Some humidity, False)
      | Some l \<Rightarrow>
          if \<bar>humidity - l\<bar> > 15 then
            (if \<not> pending then (False, Some l, True) else (True, Some humidity, False))
          else (True, Some humidity, False))"

record loop_state =
  ctl :: controller_state
  last_humidity :: "real option"
  humidity_spike_pending :: bool

record poll_input =
  sensor :: "(real \<times> real) option"
  now :: datetime
  fetched_weather :: "weather_dict option"

datatype poll_outcome = ReadFailed | SpikeIgnored | Decided cycle_result

text \<open>
  One pass of the \<open>while\<close> loop. \<open>sensor\<close> is the valid reading (temperature, humidity) or
  \<open>None\<close>; \<open>fetched_weather\<close> is what \<open>ambient_fetcher.get_weather()\<close> returns in this
  pass. An exception of \<open>dew_point_c\<close> is not caught by the loop: it ends the pass (and the
  thread) and is the \<open>Inl\<close> result.
\<close>

definition poll_cycle ::
    "config \<Rightarrow> datetime \<Rightarrow> poll_input \<Rightarrow> loop_state \<Rightarrow> pyerror + (poll_outcome \<times> loop_state)" where
  "poll_cycle cfg startup_time inp ls =
     (case sensor inp of
        None \<Rightarrow> Inr (ReadFailed, ls)
      | Some (temp_c, humidity) \<Rightarrow>
          (case humidity_filter (last_humidity ls) (humidity_spike_pending ls) humidity of
             (False, lh, pend) \<Rightarrow>
               Inr (SpikeIgnored, ls\<lparr>last_humidity := lh, humidity_spike_pending := pend\<rparr>)
           | (True, lh, pend) \<Rightarrow>
               (case dew_point_c (Fin temp_c) (Fin humidity) of
                  Inl e \<Rightarrow> Inl e
                | Inr dew_c \<Rightarrow>
                    (let r = control_cycle cfg startup_time (now inp) temp_c dew_c
                               (fetched_weather inp) (ctl ls)
                     in Inr (Decided r,
                             \<lparr>ctl = new_state r, last_humidity = lh,
                              humidity_spike_pending = pend\<rparr>)))))"

subsection \<open>The operator's request and runs of events\<close>

text \<open>
  \<open>api_control\<close>, POST (lines 186 to 205): the payload's \<open>mode\<close> and \<open>manual_on\<close>, each
  possibly missing. The manual branch writes the relay at once, without comparing.
\<close>

definition api_control_post ::
    "ctl_mode option \<Rightarrow> bool option \<Rightarrow> controller_state \<Rightarrow> controller_state \<times> bool list" where
  "api_control_post payload_mode payload_manual st =
     (let md = (case payload_mode of None \<Rightarrow> mode st | Some m \<Rightarrow> m)
      in if md = Auto then (set_mode Auto None st, [])
         else (let manual = (case payload_manual of None \<Rightarrow> manual_on st | Some b \<Rightarrow> b)
               in set_relay manual (set_mode Manual (Some manual) st, [])))"

datatype event = Poll poll_input | Api "ctl_mode option" "bool option"

definition initial_loop_state :: loop_state where
  "initial_loop_state =
     \<lparr>ctl = update_relay False initial_state, last_humidity = None,
      humidity_spike_pending = False\<rparr>"

definition apply_event :: "config \<Rightarrow> datetime \<Rightarrow> event \<Rightarrow> loop_state \<Rightarrow> pyerror + (poll_outcome list \<times> loop_state)" where
  "apply_event cfg startup_time ev ls =
     (case ev of
        Poll inp \<Rightarrow>
          (case poll_cycle cfg startup_time inp ls of
             Inl e \<Rightarrow> Inl e
           | Inr (out, ls') \<Rightarrow> Inr ([out], ls'))
      | Api pm pb \<Rightarrow> Inr ([], ls\<lparr>ctl := fst (api_control_post pm pb (ctl ls))\<rparr>))"

fun run_events ::
    "config \<Rightarrow> datetime \<Rightarrow> event list \<Rightarrow> loop_state \<Rightarrow> pyerror + (poll_outcome list \<times> loop_state)" where
  "run_events cfg startup_time [] ls = Inr ([], ls)"
| "run_events cfg startup_time (ev # evs) ls =
     (case apply_event cfg startup_time ev ls of
        Inl e \<Rightarrow> Inl e
      | Inr (outs, ls') \<Rightarrow>
          (case run_events cfg startup_time evs ls' of
             Inl e \<Rightarrow> Inl e
           | Inr (outs', ls'') \<Rightarrow> Inr (outs @ outs', ls'')))"

subsection \<open>Inputs of the worked examples\<close>

definition humid_weather :: weather_dict where
  "humid_weather =
     \<lparr>w_temperature_c = Some (Fin 10), w_dew_point_c = Some (Fin 8),
      w_sunrise = Absent, w_sunset = Absent\<rparr>"

definition midday_weather :: weather_dict where
  "midday_weather =
     \<lparr>w_temperature_c = Some (Fin 30), w_dew_point_c = Some (Fin 14),
      w_sunrise = Iso (minutes 60), w_sunset = Iso (minutes 600)\<rparr>"

definition reading_poll :: "real \<Rightarrow> real \<Rightarrow> datetime \<Rightarrow> weather_dict option \<Rightarrow> poll_input" where
  "reading_poll temp_c humidity now_dt w =
     \<lparr>sensor = Some (temp_c, humidity), now = now_dt, fetched_weather = w\<rparr>"

section \<open>Properties of the dew point\<close>

text \<open>
  At 100 percent humidity the logarithm is zero; at 20 and at 25 degrees the doubles give
  the temperature back exactly, as the model does.
\<close>

lemma dew_point_c_at_20: "dew_point_c (Fin 20) (Fin 100) = Inr (Fin 20)"
  by (simp add: dew_point_c_def gamma_def magnus_a_def magnus_b_def fsub_def)

lemma dew_point_c_at_25: "dew_point_c (Fin 25) (Fin 100) = Inr (Fin 25)"
  by (simp add: dew_point_c_def gamma_def magnus_a_def magnus_b_def fsub_def)

text \<open>
  C4, as stated, fails: a NaN humidity is not rejected. \<open>math.log(nan)\<close> is NaN, no
  exception is raised, and the function returns NaN.
\<close>

theorem dew_point_c_nan_humidity_counterexample:
  "dew_point_c (Fin 20) NaN = Inr NaN"
  by (simp add: dew_point_c_def gamma_def magnus_a_def magnus_b_def fsub_def)

text \<open>
  C4 (amended): for every temperature, finite or not, and every humidity \<open>h \<le> 0\<close>,
  \<open>dew_point_c\<close> raises and returns no value: \<open>ValueError\<close> (the math domain error of
  \<open>math.log\<close>), except at the temperature \<open>-237.7\<close>, where the quotient is evaluated
  first and raises \<open>ZeroDivisionError\<close>. The function validates nothing itself, so the
  rejection does not extend to NaN inputs.
\<close>

theorem dew_point_c_nonpositive_humidity_raises:
  assumes "h \<le> 0"
  shows "dew_point_c t (Fin h) =
           (if t = Fin (- magnus_b) then Inl ZeroDivisionError else Inl ValueError)"
  using assms
  by (cases t) (auto simp add: dew_point_c_def gamma_def magnus_a_def magnus_b_def signed_inf_def)

theorem dew_point_c_nonpositive_humidity_raises_witness:
  "(0::real) \<le> 0 \<and> dew_point_c (Fin 20) (Fin 0) = Inl ValueError"
  using dew_point_c_nonpositive_humidity_raises [of 0 "Fin 20"]
  by (simp add: magnus_b_def)

section \<open>Properties of one control cycle\<close>

lemma timer_active_expire: "timer_active n (expire n t) = timer_active n t"
  by (cases t) (auto simp add: timer_active_def expire_def)

lemma flt_asym: "flt x y \<Longrightarrow> \<not> flt y x"
  by (cases x; cases y) auto

lemma update_weather_fields:
  "auto_run_until (update_weather w st) = auto_run_until st"
  "auto_cooldown_until (update_weather w st) = auto_cooldown_until st"
  "mode (update_weather w st) = mode st"
  "manual_on (update_weather w st) = manual_on st"
  "relay_on (update_weather w st) = relay_on st"
  by (simp_all add: update_weather_def)

lemma can_force_run_update_weather:
  "can_force_run cfg su n w (update_weather w' st) = can_force_run cfg su n w st"
  by (simp add: can_force_run_def update_weather_def)

lemma update_timers_run:
  "auto_run_until (update_timers cfg su n w st) =
     (if can_force_run cfg su n w st then Some (n + FORCE_RUN_DURATION cfg)
      else expire n (auto_run_until st))"
  by (simp add: update_timers_def Let_def start_forced_run_def clear_forced_run_def
      clear_cooldown_def expire_def split: option.splits)

lemma update_timers_cooldown:
  "auto_cooldown_until (update_timers cfg su n w st) =
     (if can_force_run cfg su n w st
      then Some (n + FORCE_RUN_DURATION cfg + FORCE_RUN_COOLDOWN cfg)
      else expire n (auto_cooldown_until st))"
  by (simp add: update_timers_def Let_def start_forced_run_def clear_forced_run_def
      clear_cooldown_def expire_def split: option.splits)

lemma update_timers_other:
  "mode (update_timers cfg su n w st) = mode st"
  "manual_on (update_timers cfg su n w st) = manual_on st"
  "relay_on (update_timers cfg su n w st) = relay_on st"
  by (simp_all add: update_timers_def Let_def start_forced_run_def clear_forced_run_def
      clear_cooldown_def split: option.splits)

lemma cycle_run_until:
  "auto_run_until (new_state (control_cycle cfg su n t d w st)) =
     (if can_force_run cfg su n w st then Some (n + FORCE_RUN_DURATION cfg)
      else expire n (auto_run_until st))"
  by (simp add: control_cycle_def Let_def set_relay_def update_relay_def update_timers_run
      can_force_run_update_weather update_weather_fields split: option.splits)

lemma cycle_cooldown_until:
  "auto_cooldown_until (new_state (control_cycle cfg su n t d w st)) =
     (if can_force_run cfg su n w st
      then Some (n + FORCE_RUN_DURATION cfg + FORCE_RUN_COOLDOWN cfg)
      else expire n (auto_cooldown_until st))"
  by (simp add: control_cycle_def Let_def set_relay_def update_relay_def update_timers_cooldown
      can_force_run_update_weather update_weather_fields split: option.splits)

lemma cycle_mode:
  "mode (new_state (control_cycle cfg su n t d w st)) = mode st"
  "manual_on (new_state (control_cycle cfg su n t d w st)) = manual_on st"
  by (simp_all add: control_cycle_def Let_def set_relay_def update_relay_def update_timers_other
      update_weather_fields split: option.splits)

lemma cycle_relay:
  "relay_on (new_state (control_cycle cfg su n t d w st)) =
     reported_relay (control_cycle cfg su n t d w st)"
  by (simp add: control_cycle_def Let_def set_relay_def update_relay_def update_timers_other
      update_weather_fields split: option.splits)

lemma cycle_writes:
  "gpio_writes (control_cycle cfg su n t d w st) =
     (case relay_branch (mode st) (manual_on st) (relay_on st)
             (in_forced_run cfg su n w st)
             (should_turn_on cfg t d w) (should_turn_off cfg t d w)
             (daylight_block n w) (auto_ready su n)
             (timer_active n (expire n (auto_cooldown_until st))) of
        None \<Rightarrow> []
      | Some b \<Rightarrow> [b])"
  by (simp add: control_cycle_def Let_def set_relay_def split: option.splits)

lemma cycle_reported:
  "reported_relay (control_cycle cfg su n t d w st) =
     (case relay_branch (mode st) (manual_on st) (relay_on st)
             (in_forced_run cfg su n w st)
             (should_turn_on cfg t d w) (should_turn_off cfg t d w)
             (daylight_block n w) (auto_ready su n)
             (timer_active n (expire n (auto_cooldown_until st))) of
        None \<Rightarrow> relay_on st
      | Some b \<Rightarrow> b)"
  by (simp add: control_cycle_def Let_def)

lemma cycle_flags:
  "forced_run_started (control_cycle cfg su n t d w st) = can_force_run cfg su n w st"
  "forced_run_active (control_cycle cfg su n t d w st) = in_forced_run cfg su n w st"
  by (simp_all add: control_cycle_def Let_def)

lemma daylight_blockI:
  assumes "sun_times w = (Some sr, Some ss)" and "sr + minutes 30 < n" and "n < ss - minutes 30"
  shows "daylight_block n w"
  using assms by (simp add: daylight_block_def minutes_def)

lemmas example_defs =
  default_config_def minutes_def initial_state_def initial_loop_state_def humid_weather_def
  midday_weather_def reading_poll_def

lemmas flag_defs =
  can_force_run_def in_forced_run_def auto_ready_def daylight_block_def sun_times_def
  ambient_temp_c_def ambient_dew_c_def timer_active_def expire_def should_turn_on_def
  should_turn_off_def threshold_temp_def baseline_dew_def fsub_def fgt_def

text \<open>
  In manual mode the relay follows the manual target, with a hardware write only when
  the target differs from the current relay state.
\<close>

lemma manual_relay_follows_target:
  assumes "mode st = Manual" and "r = control_cycle cfg su n t d w st"
  shows "reported_relay r = manual_on st
    \<and> relay_on (new_state r) = manual_on st
    \<and> gpio_writes r = (if manual_on st \<noteq> relay_on st then [manual_on st] else [])"
  using assms(1) unfolding assms(2) cycle_relay
  unfolding cycle_writes cycle_reported
  by (auto simp add: relay_branch_def)

text \<open>
  C1: in a cycle with mode = manual the relay command is the manual target and the
  forced-run timers are to stay untouched, \<open>start_forced_run\<close> not being called. The code
  breaks the second half: \<open>can_force_run\<close> (lines 415 to 423) has no test of the mode.
  After the operator's request for manual mode with the relay off, the poll at minute 20
  of the uptime, with a reading of 20 degrees and 100 percent, an ambient temperature of
  10 and an ambient dew point of 8 degrees and both timers clear, calls
  \<open>start_forced_run\<close>: the run is set to end at minute 50 and the cooldown at minute
  110, while the relay stays off as the manual target says.
\<close>

theorem manual_mode_forced_run_starts:
  fixes evs :: "event list" and c1 :: cycle_result
  defines "evs \<equiv> [Api (Some Manual) (Some False),
                   Poll (reading_poll 20 100 (minutes 20) (Some humid_weather))]"
    and "c1 \<equiv> control_cycle default_config 0 (minutes 20) 20 (Fin 20) (Some humid_weather)
                 (initial_state\<lparr>mode := Manual\<rparr>)"
  shows "run_events default_config 0 evs initial_loop_state =
        Inr ([Decided c1],
             \<lparr>ctl = new_state c1, last_humidity = Some 100, humidity_spike_pending = False\<rparr>)
    \<and> mode (new_state c1) = Manual
    \<and> forced_run_started c1
    \<and> auto_run_until (new_state c1) = Some (minutes 50)
    \<and> auto_cooldown_until (new_state c1) = Some (minutes 110)
    \<and> reported_relay c1 = False
    \<and> gpio_writes c1 = []"
proof -
  have api: "apply_event default_config 0 (Api (Some Manual) (Some False)) initial_loop_state =
        Inr ([], \<lparr>ctl = initial_state\<lparr>mode := Manual\<rparr>,
                  last_humidity = None, humidity_spike_pending = False\<rparr>)"
    by (simp add: apply_event_def api_control_post_def set_mode_def set_relay_def update_relay_def
        initial_loop_state_def initial_state_def)
  have poll: "apply_event default_config 0
        (Poll (reading_poll 20 100 (minutes 20) (Some humid_weather)))
        \<lparr>ctl = initial_state\<lparr>mode := Manual\<rparr>,
         last_humidity = None, humidity_spike_pending = False\<rparr> =
        Inr ([Decided c1],
             \<lparr>ctl = new_state c1, last_humidity = Some 100, humidity_spike_pending = False\<rparr>)"
    unfolding c1_def
    by (simp add: apply_event_def poll_cycle_def humidity_filter_def dew_point_c_at_20
        reading_poll_def Let_def)
  have run: "run_events default_config 0 evs initial_loop_state =
        Inr ([Decided c1],
             \<lparr>ctl = new_state c1, last_humidity = Some 100, humidity_spike_pending = False\<rparr>)"
    unfolding evs_def by (simp add: api poll)
  have md: "mode (new_state c1) = Manual"
    by (simp add: c1_def cycle_mode)
  have st: "forced_run_started c1"
    by (simp add: c1_def cycle_flags example_defs flag_defs)
  have t1: "auto_run_until (new_state c1) = Some (minutes 50)"
    and t2: "auto_cooldown_until (new_state c1) = Some (minutes 110)"
    by (simp_all add: c1_def cycle_run_until cycle_cooldown_until example_defs flag_defs)
  have rr: "reported_relay c1 = False" and gw: "gpio_writes c1 = []"
    by (simp_all add: c1_def cycle_reported cycle_writes relay_branch_def initial_state_def)
  show ?thesis
    by (intro conjI run md st t1 t2 rr gw)
qed

text \<open>
  C2, as stated, fails: the daylight block only keeps the relay from being switched on.
  In auto mode at minute 300, between sunrise + 30 min (minute 90) and sunset - 30 min
  (minute 570), a relay that is on stays on while the threshold (15) lies inside the
  band from 14 to 19: the cycle reports on and writes nothing.
\<close>

theorem daylight_block_relay_stays_on_counterexample:
  "daylight_block (minutes 300) (Some midday_weather)
   \<and> reported_relay
       (control_cycle default_config 0 (minutes 300) 20 (Fin 20) (Some midday_weather)
          (initial_state\<lparr>relay_on := True\<rparr>)) = True
   \<and> gpio_writes
       (control_cycle default_config 0 (minutes 300) 20 (Fin 20) (Some midday_weather)
          (initial_state\<lparr>relay_on := True\<rparr>)) = []"
  by (simp add: cycle_reported cycle_writes relay_branch_def example_defs flag_defs)

text \<open>
  C2 (amended): in every auto-mode cycle in which sunrise and sunset are both known and
  now lies strictly between sunrise + 30 min and sunset - 30 min, no forced run starts
  (the timers only expire) and the relay is not switched on by the hysteresis logic: with
  no earlier forced run still active, a relay that is off stays off without a hardware
  write, and a relay that is on stays on until the switch-off threshold is exceeded. A
  forced run started earlier and still active keeps the relay on.
\<close>

theorem daylight_block_gates_switch_on:
  assumes "mode st = Auto" and "sun_times w = (Some sr, Some ss)"
    and "sr + minutes 30 < n" and "n < ss - minutes 30"
    and "r = control_cycle cfg su n t d w st"
  shows "\<not> forced_run_started r
    \<and> auto_run_until (new_state r) = expire n (auto_run_until st)
    \<and> auto_cooldown_until (new_state r) = expire n (auto_cooldown_until st)
    \<and> (\<not> timer_active n (auto_run_until st) \<and> \<not> relay_on st \<longrightarrow>
          reported_relay r = False \<and> gpio_writes r = [])
    \<and> (\<not> timer_active n (auto_run_until st) \<and> relay_on st \<longrightarrow>
          reported_relay r = (\<not> should_turn_off cfg t d w))
    \<and> (timer_active n (auto_run_until st) \<longrightarrow> reported_relay r = True)"
proof -
  have db: "daylight_block n w"
    using assms(2-4) by (rule daylight_blockI)
  then have nf: "\<not> can_force_run cfg su n w st"
    by (simp add: can_force_run_def)
  show ?thesis
    unfolding assms(5) cycle_run_until cycle_cooldown_until cycle_writes cycle_reported cycle_flags
    using assms(1) db nf
    by (auto simp add: relay_branch_def in_forced_run_def timer_active_expire)
qed

theorem daylight_block_gates_switch_on_witness:
  "mode initial_state = Auto
   \<and> sun_times (Some midday_weather) = (Some (minutes 60), Some (minutes 600))
   \<and> minutes 60 + minutes 30 < minutes 300 \<and> minutes 300 < minutes 600 - minutes 30
   \<and> \<not> forced_run_started
         (control_cycle default_config 0 (minutes 300) 16 (Fin 16) (Some midday_weather)
            initial_state)
   \<and> reported_relay
         (control_cycle default_config 0 (minutes 300) 16 (Fin 16) (Some midday_weather)
            initial_state) = False
   \<and> should_turn_on default_config 16 (Fin 16) (Some midday_weather)"
  using daylight_block_gates_switch_on
    [of initial_state "Some midday_weather" "minutes 60" "minutes 600" "minutes 300" _
        default_config 0 16 "Fin 16", OF _ _ _ _ refl]
  by (simp add: example_defs flag_defs)

text \<open>
  C3, as stated, fails for the forced run: its start is gated by the warm-up too. With
  the same state, weather and reading, no forced run starts at minute 10 of the uptime
  and one starts at minute 15.
\<close>

theorem warm_up_blocks_forced_run_counterexample:
  "\<not> auto_ready 0 (minutes 10)
   \<and> \<not> forced_run_started
         (control_cycle default_config 0 (minutes 10) 20 (Fin 20) (Some humid_weather)
            initial_state)
   \<and> forced_run_started
       (control_cycle default_config 0 (minutes 15) 20 (Fin 20) (Some humid_weather)
          initial_state)"
  by (simp add: cycle_flags example_defs flag_defs)

text \<open>
  C3 (amended): the warm-up gate (uptime of at least 15 minutes) blocks auto ON
  transitions and forced-run starts, and nothing else. In every auto-mode cycle with an
  uptime below 15 minutes no forced run starts (the timers only expire) and, with no
  earlier forced run still active, a relay that is off stays off; an auto OFF transition
  is permitted: a relay that is on is switched off, with one hardware write, as soon as
  the switch-off threshold is exceeded.
\<close>

theorem warm_up_gates_on_and_forced_run:
  assumes "mode st = Auto" and "\<not> auto_ready su n"
    and "r = control_cycle cfg su n t d w st"
  shows "\<not> forced_run_started r
    \<and> auto_run_until (new_state r) = expire n (auto_run_until st)
    \<and> auto_cooldown_until (new_state r) = expire n (auto_cooldown_until st)
    \<and> (\<not> timer_active n (auto_run_until st) \<and> \<not> relay_on st \<longrightarrow>
          reported_relay r = False \<and> gpio_writes r = [])
    \<and> (\<not> timer_active n (auto_run_until st) \<and> relay_on st \<and> should_turn_off cfg t d w \<longrightarrow>
          reported_relay r = False \<and> gpio_writes r = [False])"
proof -
  have nf: "\<not> can_force_run cfg su n w st"
    using assms(2) by (simp add: can_force_run_def)
  show ?thesis
    unfolding assms(3) cycle_run_until cycle_cooldown_until cycle_writes cycle_reported cycle_flags
    using assms(1,2) nf
    by (auto simp add: relay_branch_def in_forced_run_def timer_active_expire)
qed

theorem warm_up_gates_on_and_forced_run_witness:
  "mode (initial_state\<lparr>relay_on := True\<rparr>) = Auto
   \<and> \<not> auto_ready 0 (minutes 10)
   \<and> should_turn_off default_config 30 (Fin 30) (Some humid_weather)
   \<and> \<not> forced_run_started
         (control_cycle default_config 0 (minutes 10) 30 (Fin 30) (Some humid_weather)
            (initial_state\<lparr>relay_on := True\<rparr>))
   \<and> reported_relay
         (control_cycle default_config 0 (minutes 10) 30 (Fin 30) (Some humid_weather)
            (initial_state\<lparr>relay_on := True\<rparr>)) = False
   \<and> gpio_writes
         (control_cycle default_config 0 (minutes 10) 30 (Fin 30) (Some humid_weather)
            (initial_state\<lparr>relay_on := True\<rparr>)) = [False]"
  using warm_up_gates_on_and_forced_run
    [of "initial_state\<lparr>relay_on := True\<rparr>" 0 "minutes 10" _
        default_config 30 "Fin 30" "Some humid_weather", OF _ _ refl]
  by (simp add: example_defs flag_defs)

text \<open>
  C8: in every control cycle, manual, forced run and hysteresis alike, a hardware write
  is issued only on a transition: when the commanded relay state equals the current
  \<open>relay_on\<close> nothing is written, otherwise exactly the commanded state is written once,
  and the state's \<open>relay_on\<close> ends equal to the command.
\<close>

theorem gpio_write_only_on_transition:
  "gpio_writes (control_cycle cfg su n t d w st) =
     (if reported_relay (control_cycle cfg su n t d w st) = relay_on st then []
      else [reported_relay (control_cycle cfg su n t d w st)])
   \<and> relay_on (new_state (control_cycle cfg su n t d w st)) =
       reported_relay (control_cycle cfg su n t d w st)"
  unfolding cycle_relay cycle_writes cycle_reported
  by (auto simp add: relay_branch_def)

theorem gpio_write_only_on_transition_witness:
  "reported_relay
     (control_cycle default_config 0 (minutes 20) 20 (Fin 20) (Some humid_weather)
        (initial_state\<lparr>relay_on := True\<rparr>)) = True
   \<and> gpio_writes
       (control_cycle default_config 0 (minutes 20) 20 (Fin 20) (Some humid_weather)
          (initial_state\<lparr>relay_on := True\<rparr>)) = []"
  using gpio_write_only_on_transition
    [of default_config 0 "minutes 20" 20 "Fin 20" "Some humid_weather"
        "initial_state\<lparr>relay_on := True\<rparr>"]
  by (simp add: cycle_reported relay_branch_def example_defs flag_defs)

section \<open>Properties of runs of the loop\<close>

lemma poll_cycle_cases:
  assumes "poll_cycle cfg su inp ls = Inr (out, ls1)"
  shows "(out = ReadFailed \<and> ls1 = ls)
    \<or> (out = SpikeIgnored \<and> ctl ls1 = ctl ls)
    \<or> (\<exists>t h d. sensor inp = Some (t, h) \<and> dew_point_c (Fin t) (Fin h) = Inr d
          \<and> out = Decided (control_cycle cfg su (now inp) t d (fetched_weather inp) (ctl ls))
          \<and> ctl ls1 = new_state (control_cycle cfg su (now inp) t d (fetched_weather inp) (ctl ls)))"
  using assms
  by (auto simp add: poll_cycle_def Let_def split: option.splits prod.splits bool.splits sum.splits)

lemma api_control_post_timers:
  "auto_run_until (fst (api_control_post pm pb st)) = auto_run_until st"
  "auto_cooldown_until (fst (api_control_post pm pb st)) = auto_cooldown_until st"
  by (simp_all add: api_control_post_def Let_def set_mode_def set_relay_def update_relay_def
      split: option.splits)

lemma cycle_timers_ordered:
  assumes "0 \<le> FORCE_RUN_COOLDOWN cfg"
    and "\<forall>r c. auto_run_until st = Some r \<and> auto_cooldown_until st = Some c \<longrightarrow> r \<le> c"
  shows "\<forall>r c. auto_run_until (new_state (control_cycle cfg su n t d w st)) = Some r
           \<and> auto_cooldown_until (new_state (control_cycle cfg su n t d w st)) = Some c
           \<longrightarrow> r \<le> c"
  unfolding cycle_run_until cycle_cooldown_until using assms
  by (auto simp add: expire_def split: option.splits if_splits)

lemma apply_event_timers_ordered:
  assumes "0 \<le> FORCE_RUN_COOLDOWN cfg"
    and "\<forall>r c. auto_run_until (ctl ls) = Some r \<and> auto_cooldown_until (ctl ls) = Some c \<longrightarrow> r \<le> c"
    and "apply_event cfg su ev ls = Inr (outs, ls1)"
  shows "\<forall>r c. auto_run_until (ctl ls1) = Some r \<and> auto_cooldown_until (ctl ls1) = Some c \<longrightarrow> r \<le> c"
proof (cases ev)
  case (Poll inp)
  with assms(3) obtain out where p: "poll_cycle cfg su inp ls = Inr (out, ls1)"
    by (auto simp add: apply_event_def split: sum.splits)
  from poll_cycle_cases[OF p] show ?thesis
    using assms(2) cycle_timers_ordered[OF assms(1,2)] by auto
next
  case (Api pm pb)
  with assms(3) have "ls1 = ls\<lparr>ctl := fst (api_control_post pm pb (ctl ls))\<rparr>"
    by (simp add: apply_event_def)
  then show ?thesis
    using assms(2) by (simp add: api_control_post_timers)
qed

lemma apply_event_outcomes:
  assumes "apply_event cfg su ev ls = Inr (outs, ls1)" and "Decided cr \<in> set outs"
  shows "\<exists>n t d w st. cr = control_cycle cfg su n t d w st"
proof (cases ev)
  case (Poll inp)
  with assms(1) obtain out where p: "poll_cycle cfg su inp ls = Inr (out, ls1)"
    and o: "outs = [out]"
    by (auto simp add: apply_event_def split: sum.splits)
  from poll_cycle_cases[OF p] assms(2) o show ?thesis
    by fastforce
next
  case (Api pm pb)
  with assms show ?thesis
    by (simp add: apply_event_def)
qed

lemma run_events_timers_ordered:
  assumes "0 \<le> FORCE_RUN_COOLDOWN cfg"
  shows "run_events cfg su evs ls = Inr (outs, ls1) \<Longrightarrow>
     \<forall>r c. auto_run_until (ctl ls) = Some r \<and> auto_cooldown_until (ctl ls) = Some c \<longrightarrow> r \<le> c \<Longrightarrow>
     \<forall>r c. auto_run_until (ctl ls1) = Some r \<and> auto_cooldown_until (ctl ls1) = Some c \<longrightarrow> r \<le> c"
proof (induction evs arbitrary: ls outs)
  case Nil
  then show ?case
    by simp
next
  case (Cons ev evs)
  from Cons.prems(1) obtain o1 lsm o2 where
    a: "apply_event cfg su ev ls = Inr (o1, lsm)" and
    r: "run_events cfg su evs lsm = Inr (o2, ls1)"
    by (auto split: sum.splits)
  from apply_event_timers_ordered[OF assms Cons.prems(2) a]
  show ?case
    by (rule Cons.IH[OF r])
qed

lemma run_events_outcomes:
  "run_events cfg su evs ls = Inr (outs, ls1) \<Longrightarrow> Decided cr \<in> set outs \<Longrightarrow>
     \<exists>n t d w st. cr = control_cycle cfg su n t d w st"
proof (induction evs arbitrary: ls outs)
  case Nil
  then show ?case
    by simp
next
  case (Cons ev evs)
  from Cons.prems(1) obtain o1 lsm o2 where
    a: "apply_event cfg su ev ls = Inr (o1, lsm)" and
    r: "run_events cfg su evs lsm = Inr (o2, ls1)" and o: "outs = o1 @ o2"
    by (auto split: sum.splits)
  from Cons.prems(2) o have "Decided cr \<in> set o1 \<or> Decided cr \<in> set o2"
    by auto
  then show ?case
    using apply_event_outcomes[OF a] Cons.IH[OF r] by blast
qed

lemma poll_band_step:
  assumes p: "poll_cycle cfg su inp ls = Inr (out, ls1)"
    and m: "mode (ctl ls) = Auto"
    and b: "\<forall>t h d. sensor inp = Some (t, h) \<and> dew_point_c (Fin t) (Fin h) = Inr d \<longrightarrow>
         flt (baseline_dew (fetched_weather inp) d) (threshold_temp cfg t)
       \<and> flt (threshold_temp cfg t)
           (fadd (baseline_dew (fetched_weather inp) d) (Fin (HYSTERESIS_C cfg)))"
    and f: "\<forall>r. out = Decided r \<longrightarrow> \<not> forced_run_active r"
  shows "relay_on (ctl ls1) = relay_on (ctl ls) \<and> mode (ctl ls1) = Auto
    \<and> (\<forall>r. out = Decided r \<longrightarrow> gpio_writes r = [] \<and> reported_relay r = relay_on (ctl ls))"
proof -
  from poll_cycle_cases[OF p]
  consider "out = ReadFailed \<and> ls1 = ls" | "out = SpikeIgnored \<and> ctl ls1 = ctl ls"
    | t h d where "sensor inp = Some (t, h)" "dew_point_c (Fin t) (Fin h) = Inr d"
        "out = Decided (control_cycle cfg su (now inp) t d (fetched_weather inp) (ctl ls))"
        "ctl ls1 = new_state (control_cycle cfg su (now inp) t d (fetched_weather inp) (ctl ls))"
    by blast
  then show ?thesis
  proof cases
    case 1
    then show ?thesis
      using m by simp
  next
    case 2
    then show ?thesis
      using m by simp
  next
    case 3
    let ?w = "fetched_weather inp"
    from b 3(1,2) have b1: "flt (baseline_dew ?w d) (threshold_temp cfg t)"
      and b2: "flt (threshold_temp cfg t) (fadd (baseline_dew ?w d) (Fin (HYSTERESIS_C cfg)))"
      by blast+
    have on: "\<not> should_turn_on cfg t d ?w"
      using flt_asym[OF b1] by (simp add: should_turn_on_def)
    have off: "\<not> should_turn_off cfg t d ?w"
      using flt_asym[OF b2] by (simp add: should_turn_off_def fgt_def)
    from f 3(3) have nf: "\<not> in_forced_run cfg su (now inp) ?w (ctl ls)"
      by (simp add: cycle_flags)
    have rr: "reported_relay (control_cycle cfg su (now inp) t d ?w (ctl ls)) = relay_on (ctl ls)"
      using m on off nf by (simp add: cycle_reported relay_branch_def)
    have gw: "gpio_writes (control_cycle cfg su (now inp) t d ?w (ctl ls)) = []"
      using m on off nf by (simp add: cycle_writes relay_branch_def)
    show ?thesis
      using 3(3,4) m rr gw by (simp add: cycle_relay cycle_mode)
  qed
qed



text \<open>
  C6, as stated, fails: config.py takes \<open>FORCE_RUN_COOLDOWN_MIN\<close> from the environment
  unchecked. With a cooldown of minus 10 minutes, one poll from the initial state that
  starts a forced run at minute 20 sets the run to end at minute 50 and the cooldown at
  minute 40, before the run's end.
\<close>

theorem negative_cooldown_counterexample:
  fixes cfg :: config and c1 :: cycle_result
  defines "cfg \<equiv> default_config\<lparr>FORCE_RUN_COOLDOWN := minutes (- 10)\<rparr>"
    and "c1 \<equiv> control_cycle (default_config\<lparr>FORCE_RUN_COOLDOWN := minutes (- 10)\<rparr>) 0
                 (minutes 20) 20 (Fin 20) (Some humid_weather) (ctl initial_loop_state)"
  shows "run_events cfg 0 [Poll (reading_poll 20 100 (minutes 20) (Some humid_weather))]
           initial_loop_state =
        Inr ([Decided c1],
             \<lparr>ctl = new_state c1, last_humidity = Some 100, humidity_spike_pending = False\<rparr>)
    \<and> auto_run_until (new_state c1) = Some (minutes 50)
    \<and> auto_cooldown_until (new_state c1) = Some (minutes 40)
    \<and> \<not> minutes 50 \<le> minutes 40"
proof -
  have run: "run_events cfg 0 [Poll (reading_poll 20 100 (minutes 20) (Some humid_weather))]
           initial_loop_state =
        Inr ([Decided c1],
             \<lparr>ctl = new_state c1, last_humidity = Some 100, humidity_spike_pending = False\<rparr>)"
    unfolding c1_def cfg_def
    by (simp add: apply_event_def poll_cycle_def humidity_filter_def dew_point_c_at_20
        reading_poll_def Let_def initial_loop_state_def)
  have t1: "auto_run_until (new_state c1) = Some (minutes 50)"
    and t2: "auto_cooldown_until (new_state c1) = Some (minutes 40)"
    by (simp_all add: c1_def cycle_run_until cycle_cooldown_until update_relay_def
        example_defs flag_defs)
  have ord: "\<not> minutes 50 \<le> minutes 40"
    by (simp add: minutes_def)
  show ?thesis
    by (intro conjI run t1 t2 ord)
qed

text \<open>
  C6 (amended): provided \<open>FORCE_RUN_COOLDOWN\<close> is not negative (it is 60 minutes by
  default), in every state reached from the initial state by polls and operator
  requests, the two timers, when both are present, satisfy
  \<open>auto_run_until \<le> auto_cooldown_until\<close>; and every cycle
  that starts a forced run sets both timers together, the cooldown's end being the run's
  end plus \<open>FORCE_RUN_COOLDOWN\<close>.
\<close>

theorem timers_ordered_in_reachable_states:
  assumes "0 \<le> FORCE_RUN_COOLDOWN cfg"
    and "run_events cfg su evs initial_loop_state = Inr (outs, ls)"
  shows "(\<forall>r c. auto_run_until (ctl ls) = Some r \<and> auto_cooldown_until (ctl ls) = Some c
            \<longrightarrow> r \<le> c)
    \<and> (\<forall>cr. Decided cr \<in> set outs \<and> forced_run_started cr \<longrightarrow>
          (\<exists>r. auto_run_until (new_state cr) = Some r
             \<and> auto_cooldown_until (new_state cr) = Some (r + FORCE_RUN_COOLDOWN cfg)))"
proof
  have "\<forall>r c. auto_run_until (ctl initial_loop_state) = Some r
      \<and> auto_cooldown_until (ctl initial_loop_state) = Some c \<longrightarrow> r \<le> c"
    by (simp add: initial_loop_state_def initial_state_def update_relay_def)
  with run_events_timers_ordered[OF assms]
  show "\<forall>r c. auto_run_until (ctl ls) = Some r \<and> auto_cooldown_until (ctl ls) = Some c \<longrightarrow> r \<le> c"
    by blast
next
  show "\<forall>cr. Decided cr \<in> set outs \<and> forced_run_started cr \<longrightarrow>
          (\<exists>r. auto_run_until (new_state cr) = Some r
             \<and> auto_cooldown_until (new_state cr) = Some (r + FORCE_RUN_COOLDOWN cfg))"
  proof (intro allI impI)
    fix cr
    assume h: "Decided cr \<in> set outs \<and> forced_run_started cr"
    then obtain n t d w st where c: "cr = control_cycle cfg su n t d w st"
      using run_events_outcomes[OF assms(2)] by blast
    with h have "can_force_run cfg su n w st"
      by (simp add: cycle_flags)
    then show "\<exists>r. auto_run_until (new_state cr) = Some r
             \<and> auto_cooldown_until (new_state cr) = Some (r + FORCE_RUN_COOLDOWN cfg)"
      unfolding c by (simp add: cycle_run_until cycle_cooldown_until)
  qed
qed

theorem timers_ordered_in_reachable_states_witness:
  fixes evs :: "event list" and c1 :: cycle_result
  defines "evs \<equiv> [Api (Some Manual) (Some True),
                   Poll (reading_poll 20 100 (minutes 20) (Some humid_weather))]"
    and "c1 \<equiv> control_cycle default_config 0 (minutes 20) 20 (Fin 20) (Some humid_weather)
                 (initial_state\<lparr>mode := Manual, manual_on := True, relay_on := True\<rparr>)"
  shows "0 \<le> FORCE_RUN_COOLDOWN default_config
    \<and> run_events default_config 0 evs initial_loop_state =
        Inr ([Decided c1],
             \<lparr>ctl = new_state c1, last_humidity = Some 100, humidity_spike_pending = False\<rparr>)
    \<and> forced_run_started c1
    \<and> auto_run_until (new_state c1) = Some (minutes 50)
    \<and> auto_cooldown_until (new_state c1) = Some (minutes 110)
    \<and> minutes 50 \<le> minutes 110"
proof -
  have h: "0 \<le> FORCE_RUN_COOLDOWN default_config"
    by (simp add: default_config_def minutes_def)
  note dew = dew_point_c_at_20
  have api: "apply_event default_config 0 (Api (Some Manual) (Some True)) initial_loop_state =
        Inr ([], \<lparr>ctl = initial_state\<lparr>mode := Manual, manual_on := True, relay_on := True\<rparr>,
                  last_humidity = None, humidity_spike_pending = False\<rparr>)"
    by (simp add: apply_event_def api_control_post_def set_mode_def set_relay_def update_relay_def
        initial_loop_state_def initial_state_def)
  have poll: "apply_event default_config 0
        (Poll (reading_poll 20 100 (minutes 20) (Some humid_weather)))
        \<lparr>ctl = initial_state\<lparr>mode := Manual, manual_on := True, relay_on := True\<rparr>,
         last_humidity = None, humidity_spike_pending = False\<rparr> =
        Inr ([Decided c1],
             \<lparr>ctl = new_state c1, last_humidity = Some 100, humidity_spike_pending = False\<rparr>)"
    unfolding c1_def
    by (simp add: apply_event_def poll_cycle_def humidity_filter_def dew reading_poll_def Let_def)
  have run: "run_events default_config 0 evs initial_loop_state =
        Inr ([Decided c1],
             \<lparr>ctl = new_state c1, last_humidity = Some 100, humidity_spike_pending = False\<rparr>)"
    unfolding evs_def by (simp add: api poll)
  have st: "forced_run_started c1"
    by (simp add: c1_def cycle_flags example_defs flag_defs)
  have t1: "auto_run_until (new_state c1) = Some (minutes 50)"
    and t2: "auto_cooldown_until (new_state c1) = Some (minutes 110)"
    by (simp_all add: c1_def cycle_run_until cycle_cooldown_until example_defs flag_defs)
  have ord: "minutes 50 \<le> minutes 110"
    using spec[OF spec[OF conjunct1[OF timers_ordered_in_reachable_states[OF h run]]],
        of "minutes 50" "minutes 110"] t1 t2
    by simp
  show ?thesis
    by (intro conjI h run st t1 t2 ord)
qed

text \<open>
  C7: over every sequence of polls in auto mode in which no cycle has a forced run
  active and, in each cycle, the threshold temperature lies strictly between the
  baseline dew point and the baseline plus \<open>HYSTERESIS_C\<close>, the relay state never
  changes: every cycle reports the relay as it was at the start and writes nothing to
  the hardware.
\<close>

theorem hysteresis_band_holds_relay:
  assumes "run_events cfg su (map Poll inps) ls = Inr (outs, ls1)"
    and "mode (ctl ls) = Auto"
    and "\<forall>inp \<in> set inps. \<forall>t h d.
           sensor inp = Some (t, h) \<and> dew_point_c (Fin t) (Fin h) = Inr d \<longrightarrow>
             flt (baseline_dew (fetched_weather inp) d) (threshold_temp cfg t)
           \<and> flt (threshold_temp cfg t)
               (fadd (baseline_dew (fetched_weather inp) d) (Fin (HYSTERESIS_C cfg)))"
    and "\<forall>r. Decided r \<in> set outs \<longrightarrow> \<not> forced_run_active r"
  shows "relay_on (ctl ls1) = relay_on (ctl ls)
    \<and> (\<forall>r. Decided r \<in> set outs \<longrightarrow> gpio_writes r = [] \<and> reported_relay r = relay_on (ctl ls))"
  using assms
proof (induction inps arbitrary: ls outs)
  case Nil
  then show ?case
    by simp
next
  case (Cons inp inps)
  from Cons.prems(1) obtain out lsm o2 where
    p: "poll_cycle cfg su inp ls = Inr (out, lsm)" and
    r: "run_events cfg su (map Poll inps) lsm = Inr (o2, ls1)" and o: "outs = out # o2"
    by (auto simp add: apply_event_def split: sum.splits)
  have f1: "\<forall>r. out = Decided r \<longrightarrow> \<not> forced_run_active r"
    using Cons.prems(4) o by simp
  have b1: "\<forall>t h d. sensor inp = Some (t, h) \<and> dew_point_c (Fin t) (Fin h) = Inr d \<longrightarrow>
         flt (baseline_dew (fetched_weather inp) d) (threshold_temp cfg t)
       \<and> flt (threshold_temp cfg t)
           (fadd (baseline_dew (fetched_weather inp) d) (Fin (HYSTERESIS_C cfg)))"
    using Cons.prems(3) by (meson list.set_intros(1))
  note s = poll_band_step[OF p Cons.prems(2) b1 f1]
  have ih: "relay_on (ctl ls1) = relay_on (ctl lsm)
    \<and> (\<forall>r. Decided r \<in> set o2 \<longrightarrow> gpio_writes r = [] \<and> reported_relay r = relay_on (ctl lsm))"
  proof (rule Cons.IH[OF r])
    show "mode (ctl lsm) = Auto"
      using s by simp
    show "\<forall>inp \<in> set inps. \<forall>t h d.
           sensor inp = Some (t, h) \<and> dew_point_c (Fin t) (Fin h) = Inr d \<longrightarrow>
             flt (baseline_dew (fetched_weather inp) d) (threshold_temp cfg t)
           \<and> flt (threshold_temp cfg t)
               (fadd (baseline_dew (fetched_weather inp) d) (Fin (HYSTERESIS_C cfg)))"
      using Cons.prems(3) by (meson list.set_intros(2))
    show "\<forall>r. Decided r \<in> set o2 \<longrightarrow> \<not> forced_run_active r"
      using Cons.prems(4) o by simp
  qed
  show ?case
    using s ih o by auto
qed

theorem hysteresis_band_holds_relay_witness:
  fixes ls :: loop_state and c1 c2 :: cycle_result and inps :: "poll_input list"
  defines "ls \<equiv> initial_loop_state\<lparr>ctl := initial_state\<lparr>relay_on := True\<rparr>\<rparr>"
    and "inps \<equiv> [reading_poll 20 100 (minutes 20) (Some midday_weather),
                   reading_poll 25 100 (minutes 21) (Some (midday_weather\<lparr>w_dew_point_c := Some (Fin 16)\<rparr>))]"
    and "c1 \<equiv> control_cycle default_config 0 (minutes 20) 20 (Fin 20) (Some midday_weather)
                 (initial_state\<lparr>relay_on := True\<rparr>)"
    and "c2 \<equiv> control_cycle default_config 0 (minutes 21) 25 (Fin 25)
                 (Some (midday_weather\<lparr>w_dew_point_c := Some (Fin 16)\<rparr>)) (new_state c1)"
  shows "mode (ctl ls) = Auto
    \<and> run_events default_config 0 (map Poll inps) ls =
        Inr ([Decided c1, Decided c2],
             \<lparr>ctl = new_state c2, last_humidity = Some 100, humidity_spike_pending = False\<rparr>)
    \<and> \<not> forced_run_active c1 \<and> \<not> forced_run_active c2
    \<and> relay_on (new_state c2) = True
    \<and> gpio_writes c1 = [] \<and> gpio_writes c2 = []"
proof -
  have m: "mode (ctl ls) = Auto"
    by (simp add: ls_def initial_loop_state_def initial_state_def)
  note dew = dew_point_c_at_20 dew_point_c_at_25
  have poll1: "apply_event default_config 0
        (Poll (reading_poll 20 100 (minutes 20) (Some midday_weather))) ls =
        Inr ([Decided c1],
             \<lparr>ctl = new_state c1, last_humidity = Some 100, humidity_spike_pending = False\<rparr>)"
    unfolding c1_def ls_def
    by (simp add: apply_event_def poll_cycle_def humidity_filter_def dew reading_poll_def Let_def
        initial_loop_state_def)
  have poll2: "apply_event default_config 0
        (Poll (reading_poll 25 100 (minutes 21)
                 (Some (midday_weather\<lparr>w_dew_point_c := Some (Fin 16)\<rparr>))))
        \<lparr>ctl = new_state c1, last_humidity = Some 100, humidity_spike_pending = False\<rparr> =
        Inr ([Decided c2],
             \<lparr>ctl = new_state c2, last_humidity = Some 100, humidity_spike_pending = False\<rparr>)"
    unfolding c2_def
    by (simp add: apply_event_def poll_cycle_def humidity_filter_def dew reading_poll_def Let_def)
  have run: "run_events default_config 0 (map Poll inps) ls =
        Inr ([Decided c1, Decided c2],
             \<lparr>ctl = new_state c2, last_humidity = Some 100, humidity_spike_pending = False\<rparr>)"
    unfolding inps_def by (simp add: poll1 poll2)
  have nf1: "\<not> forced_run_active c1"
    by (simp add: c1_def cycle_flags example_defs flag_defs)
  have nf2: "\<not> forced_run_active c2"
    by (simp add: c2_def c1_def cycle_flags cycle_run_until cycle_cooldown_until
        example_defs flag_defs)
  have band: "\<forall>inp \<in> set inps. \<forall>t h d.
           sensor inp = Some (t, h) \<and> dew_point_c (Fin t) (Fin h) = Inr d \<longrightarrow>
             flt (baseline_dew (fetched_weather inp) d) (threshold_temp default_config t)
           \<and> flt (threshold_temp default_config t)
               (fadd (baseline_dew (fetched_weather inp) d) (Fin (HYSTERESIS_C default_config)))"
    by (simp add: inps_def example_defs flag_defs)
  have nf: "\<forall>r. Decided r \<in> set [Decided c1, Decided c2] \<longrightarrow> \<not> forced_run_active r"
    using nf1 nf2 by simp
  note res = hysteresis_band_holds_relay[OF run m band nf]
  have was: "relay_on (ctl ls) = True"
    by (simp add: ls_def initial_loop_state_def)
  have held: "relay_on (new_state c2) = True"
    using conjunct1[OF res] was by simp
  have w1: "gpio_writes c1 = []"
    using spec[OF conjunct2[OF res], of c1] by simp
  have w2: "gpio_writes c2 = []"
    using spec[OF conjunct2[OF res], of c2] by simp
  show ?thesis
    by (intro conjI m run nf1 nf2 held w1 w2)
qed

end
